theory Spec2Isabelle
  imports Complex_Main
begin

section \<open>PaperSuRF: the command line, paper loading and similarity search\<close>

text \<open>
  A shallow embedding of \<^verbatim>\<open>papersurf/command_line.py\<close>, \<^verbatim>\<open>papersurf/analysis.py\<close> and
  \<^verbatim>\<open>papersurf/paper.py\<close>. Python strings are \<open>string\<close>s whose characters are the code
  points below 256; Python integers are \<open>int\<close>; Python floats are idealised as \<open>real\<close>.
  Calls into other systems (the operating system, the PDF reader, the keyword extractor,
  the sentence encoder, the cosine similarity of the numeric library, the table
  formatter and the read queries of the graph database) are fields of the record
  \<open>env\<close>: the model covers the runs in which those calls return.
\<close>

subsection \<open>Python values and string operations\<close>

datatype pyval = PyNone | Str string | Num real | PyList "pyval list"

text \<open>Truth value of a Python object, as \<^verbatim>\<open>not x\<close> and \<^verbatim>\<open>x or y\<close> read it.\<close>

fun truthy :: "pyval \<Rightarrow> bool" where
  "truthy PyNone = False"
| "truthy (Str s) = (s \<noteq> [])"
| "truthy (Num x) = (x \<noteq> 0)"
| "truthy (PyList xs) = (xs \<noteq> [])"

definition py_or :: "pyval \<Rightarrow> pyval \<Rightarrow> pyval" where
  "py_or a b = (if truthy a then a else b)"

text \<open>\<^verbatim>\<open>for x in v\<close>: a list yields its items, a string its characters.\<close>

fun py_iter :: "pyval \<Rightarrow> pyval list" where
  "py_iter (PyList xs) = xs"
| "py_iter (Str s) = map (\<lambda>c. Str [c]) s"
| "py_iter v = []"

text \<open>\<^verbatim>\<open>str.isspace\<close>, \<^verbatim>\<open>\s\<close> and \<^verbatim>\<open>\d\<close> on the code points below 256.\<close>

definition isspace :: "char \<Rightarrow> bool" where
  "isspace c = ((of_char c :: nat) \<in> {9, 10, 11, 12, 13, 28, 29, 30, 31, 32, 133, 160})"

definition isdigit :: "char \<Rightarrow> bool" where
  "isdigit c = (48 \<le> (of_char c :: nat) \<and> (of_char c :: nat) \<le> 57)"

definition lower_char :: "char \<Rightarrow> char" where
  "lower_char c =
     (let n = (of_char c :: nat) in
      if (65 \<le> n \<and> n \<le> 90) \<or> (192 \<le> n \<and> n \<le> 222 \<and> n \<noteq> 215)
      then char_of (n + 32) else c)"

definition lower :: "string \<Rightarrow> string" where
  "lower s = map lower_char s"

definition lstrip_ws :: "string \<Rightarrow> string" where
  "lstrip_ws s = dropWhile isspace s"

definition rstrip_ws :: "string \<Rightarrow> string" where
  "rstrip_ws s = rev (dropWhile isspace (rev s))"

definition strip :: "string \<Rightarrow> string" where
  "strip s = rstrip_ws (lstrip_ws s)"

text \<open>\<^verbatim>\<open>s.rstrip(chars)\<close>: trailing characters of the set are removed.\<close>

definition rstrip_chars :: "string \<Rightarrow> string \<Rightarrow> string" where
  "rstrip_chars chars s = rev (dropWhile (\<lambda>c. c \<in> set chars) (rev s))"

text \<open>
  \<^verbatim>\<open>s.split(maxsplit=k)\<close> with no separator: words between runs of white space; after
  \<open>k\<close> words the rest of the string, from its first character that is not white space,
  is the last item.
\<close>

fun split_ws :: "nat \<Rightarrow> string \<Rightarrow> string list" where
  "split_ws 0 s = (let r = dropWhile isspace s in if r = [] then [] else [r])"
| "split_ws (Suc k) s =
     (let r = dropWhile isspace s in
      if r = [] then []
      else takeWhile (\<lambda>c. \<not> isspace c) r # split_ws k (dropWhile (\<lambda>c. \<not> isspace c) r))"

text \<open>\<^verbatim>\<open>sep.join(items)\<close>.\<close>

fun join :: "string \<Rightarrow> string list \<Rightarrow> string" where
  "join sep [] = []"
| "join sep [x] = x"
| "join sep (x # y # ys) = x @ sep @ join sep (y # ys)"

fun startswith :: "string \<Rightarrow> string \<Rightarrow> bool" where
  "startswith s [] = True"
| "startswith [] (p # ps) = False"
| "startswith (c # cs) (p # ps) = (c = p \<and> startswith cs ps)"

definition endswith :: "string \<Rightarrow> string \<Rightarrow> bool" where
  "endswith s suffix = startswith (rev s) (rev suffix)"

text \<open>\<^verbatim>\<open>s.replace(old, '')\<close> for a non-empty \<open>old\<close>: every occurrence, left to right.\<close>

fun remove_all :: "string \<Rightarrow> string \<Rightarrow> string" where
  "remove_all old [] = []"
| "remove_all old (c # cs) =
     (if old \<noteq> [] \<and> startswith (c # cs) old
      then remove_all old (drop (length old) (c # cs))
      else c # remove_all old cs)"

text \<open>\<^verbatim>\<open>xs[:n]\<close>: a negative \<open>n\<close> counts from the end.\<close>

definition slice_to :: "int \<Rightarrow> 'a list \<Rightarrow> 'a list" where
  "slice_to n xs = (if 0 \<le> n then take (nat n) xs else take (nat (int (length xs) + n)) xs)"

text \<open>\<^verbatim>\<open>int(x)\<close> of a float: rounding towards zero.\<close>

definition py_int :: "real \<Rightarrow> int" where
  "py_int x = (if x < 0 then \<lceil>x\<rceil> else \<lfloor>x\<rfloor>)"

text \<open>\<^verbatim>\<open>d.get(key, default)\<close> on a dict kept as an association list.\<close>

definition dict_get :: "(string \<times> 'v) list \<Rightarrow> string \<Rightarrow> 'v \<Rightarrow> 'v" where
  "dict_get d k dflt = (case map_of d k of Some v \<Rightarrow> v | None \<Rightarrow> dflt)"

definition nl :: string where
  "nl = [CHR 0x0A]"

subsection \<open>The graph store\<close>

text \<open>
  The database holds Paper, Author and Topic nodes, each a list of properties, and the
  relationships WROTE (author, paper) and HAS_TOPIC (paper, topic) between node
  positions. The three write statements of \<^verbatim>\<open>add_paper\<close> are modelled by their Cypher
  meaning: \<^verbatim>\<open>MERGE\<close> of a node pattern creates the node only when no node matches it,
  \<^verbatim>\<open>ON CREATE SET\<close> applies to the created node only, a property set to null is not
  stored, and \<^verbatim>\<open>MATCH ... MERGE\<close> of a relationship adds it between every matched pair
  that lacks it.
\<close>

type_synonym node = "(string \<times> pyval) list"

record graph =
  paper_nodes :: "node list"
  author_nodes :: "node list"
  topic_nodes :: "node list"
  wrote :: "(nat \<times> nat) list"
  has_topic :: "(nat \<times> nat) list"

definition matching :: "node list \<Rightarrow> string \<Rightarrow> pyval \<Rightarrow> nat list" where
  "matching ns k v = filter (\<lambda>i. map_of (ns ! i) k = Some v) [0 ..< length ns]"

definition cypher_set :: "(string \<times> pyval) list \<Rightarrow> node" where
  "cypher_set kvs = filter (\<lambda>kv. snd kv \<noteq> PyNone) kvs"

definition merge_node :: "node list \<Rightarrow> string \<Rightarrow> pyval \<Rightarrow> (string \<times> pyval) list \<Rightarrow> node list" where
  "merge_node ns k v on_create =
     (if \<exists>n \<in> set ns. map_of n k = Some v then ns else ns @ [(k, v) # cypher_set on_create])"

definition merge_edges :: "(nat \<times> nat) list \<Rightarrow> nat list \<Rightarrow> nat list \<Rightarrow> (nat \<times> nat) list" where
  "merge_edges es srcs dsts =
     es @ filter (\<lambda>e. e \<notin> set es) (concat (map (\<lambda>a. map (\<lambda>b. (a, b)) dsts) srcs))"

text \<open>
  The patterns \<^verbatim>\<open>(a:Author {name})-[:WROTE]->(p)\<close> and \<^verbatim>\<open>(p)-[:HAS_TOPIC]->(t:Topic {name})\<close>
  for the Paper node at position \<open>p\<close>.
\<close>

definition author_wrote :: "graph \<Rightarrow> pyval \<Rightarrow> nat \<Rightarrow> bool" where
  "author_wrote g name p =
     (\<exists>a < length (author_nodes g). map_of (author_nodes g ! a) ''name'' = Some name
                                      \<and> (a, p) \<in> set (wrote g))"


text \<open>The first statement: the Paper node.\<close>

definition merge_paper :: "graph \<Rightarrow> pyval \<Rightarrow> pyval \<Rightarrow> pyval \<Rightarrow> pyval \<Rightarrow> pyval \<Rightarrow> graph" where
  "merge_paper g filename title year embedding doi =
     g\<lparr>paper_nodes := merge_node (paper_nodes g) ''filename'' filename
          [(''title'', title), (''year'', year), (''embedding'', embedding), (''doi'', doi)]\<rparr>"

text \<open>The two statements run for each author.\<close>

definition merge_author :: "graph \<Rightarrow> pyval \<Rightarrow> pyval \<Rightarrow> graph" where
  "merge_author g filename name =
     (let g1 = g\<lparr>author_nodes := merge_node (author_nodes g) ''name'' name []\<rparr>
      in g1\<lparr>wrote := merge_edges (wrote g1)
               (matching (author_nodes g1) ''name'' name)
               (matching (paper_nodes g1) ''filename'' filename)\<rparr>)"

text \<open>The two statements run for each topic.\<close>

definition merge_topic :: "graph \<Rightarrow> pyval \<Rightarrow> pyval \<Rightarrow> graph" where
  "merge_topic g filename topic =
     (let g1 = g\<lparr>topic_nodes := merge_node (topic_nodes g) ''name'' topic []\<rparr>
      in g1\<lparr>has_topic := merge_edges (has_topic g1)
               (matching (paper_nodes g1) ''filename'' filename)
               (matching (topic_nodes g1) ''name'' topic)\<rparr>)"

text \<open>
  The read queries of \<^verbatim>\<open>analysis.py\<close>, by name with their parameter. A result row has
  the columns the \<^verbatim>\<open>RETURN\<close> clauses bind; a column a query does not return is
  \<open>PyNone\<close> and is not read.
\<close>

datatype read_query =
    Query_list_papers
  | Query_search_by_title string
  | Query_search_by_author string
  | Query_search_by_topic string
  | Query_search_by_semantic

record db_record =
  Filename :: pyval
  Title :: pyval
  Author :: pyval
  Year :: pyval
  DOI :: pyval
  Topic :: pyval
  Embedding :: pyval

subsection \<open>The environment\<close>

record pdf_document =
  metadata :: "(string \<times> string) list"
  pages :: "string list"

datatype maxcolwidths = Widths "int list" | Width int

record env =
  os_path_expanduser :: "string \<Rightarrow> string"
  os_path_exists :: "string \<Rightarrow> bool"
  os_path_isdir :: "string \<Rightarrow> bool"
  os_listdir :: "string \<Rightarrow> string list"
  pymupdf_open :: "string \<Rightarrow> pdf_document option"
  extract_keywords :: "string \<Rightarrow> (string \<times> real) list"
  encode :: "pyval \<Rightarrow> real list"
  cosine_similarity :: "real list \<Rightarrow> pyval \<Rightarrow> real"
  tabulate :: "pyval list list \<Rightarrow> string list \<Rightarrow> string \<Rightarrow> maxcolwidths \<Rightarrow> string"
  run_query :: "graph \<Rightarrow> read_query \<Rightarrow> db_record list"
  application_repr :: string

datatype error = FileOpenError string

subsection \<open>paper.py\<close>

record paper =
  paper_path :: string
  paper_filename :: string
  paper_year :: string
  paper_title :: string
  paper_author :: string
  paper_subject :: string
  paper_text :: string
  paper_topics :: "string list"
  paper_main_keyphrase :: string
  paper_doi :: pyval

text \<open>\<^verbatim>\<open>Paper.__init__\<close>: \<^verbatim>\<open>doi\<close> starts as the empty list.\<close>

definition Paper :: paper where
  "Paper = \<lparr>paper_path = [], paper_filename = [], paper_year = [], paper_title = [],
            paper_author = [], paper_subject = [], paper_text = [], paper_topics = [],
            paper_main_keyphrase = ''No keyphrase'', paper_doi = PyList []\<rparr>"

text \<open>\<^verbatim>\<open>os.path.basename\<close> and \<^verbatim>\<open>os.path.join\<close> of two parts, for POSIX paths.\<close>

definition basename :: "string \<Rightarrow> string" where
  "basename p = rev (takeWhile (\<lambda>c. c \<noteq> CHR ''/'') (rev p))"

definition path_join :: "string \<Rightarrow> string \<Rightarrow> string" where
  "path_join a b =
     (if startswith b ''/'' then b
      else if a = [] \<or> endswith a ''/'' then a @ b
      else a @ ''/'' @ b)"

text \<open>\<^verbatim>\<open>re.search(r"D:(\d{4})", s)\<close>: group 1 of the leftmost match.\<close>

fun year_search :: "string \<Rightarrow> string option" where
  "year_search [] = None"
| "year_search (c # cs) =
     (if c = CHR ''D'' \<and> startswith cs '':'' \<and> 4 \<le> length (drop 1 cs)
         \<and> list_all isdigit (take 4 (drop 1 cs))
      then Some (take 4 (drop 1 cs)) else year_search cs)"

text \<open>
  \<^verbatim>\<open>Paper.load\<close>: the document is opened (a failure raises), the fields are filled
  and \<^verbatim>\<open>True\<close> is returned.
\<close>

definition load :: "env \<Rightarrow> paper \<Rightarrow> string \<Rightarrow> error + (bool \<times> paper)" where
  "load e self path =
     (case pymupdf_open e path of
        None \<Rightarrow> Inl (FileOpenError path)
      | Some document \<Rightarrow>
          Inr (True,
            self\<lparr>paper_path := path,
                 paper_filename := basename path,
                 paper_title := dict_get (metadata document) ''title'' [],
                 paper_year := (case year_search (dict_get (metadata document) ''creationDate'' [])
                                of Some y \<Rightarrow> y | None \<Rightarrow> []),
                 paper_author := dict_get (metadata document) ''author'' [],
                 paper_subject := dict_get (metadata document) ''subject'' [],
                 paper_text := concat (pages document)\<rparr>))"

subsection \<open>The DOI pattern\<close>

text \<open>
  \<^verbatim>\<open>doi_pattern = r"(?:doi:\s*)?(10\.\d{4,9}/[-._;()/:a-zA-Z0-9_]+)"\<close>, searched with
  \<^verbatim>\<open>re.IGNORECASE\<close>. \<open>doi_core\<close> matches group 1 at the start of a string, \<open>doi_match_at\<close>
  the whole pattern at the start of a string, giving groups 0 and 1, and \<open>doi_search\<close> is
  \<^verbatim>\<open>re.search\<close>: the match at the leftmost position that has one. All quantifiers are
  greedy and no shorter choice of theirs can lead to a match where the longest one does
  not: digits must be followed by the slash, white space by the digit 1.
\<close>

definition doi_suffix_char :: "char \<Rightarrow> bool" where
  "doi_suffix_char c =
     (c \<in> set ''-._;()/:'' \<or> isdigit c
      \<or> (let n = (of_char c :: nat) in (65 \<le> n \<and> n \<le> 90) \<or> (97 \<le> n \<and> n \<le> 122)))"

definition doi_core :: "string \<Rightarrow> string option" where
  "doi_core s =
     (if startswith s ''10.'' then
        (let ds = takeWhile isdigit (drop 3 s); r = drop (length ds) (drop 3 s) in
         if 4 \<le> length ds \<and> length ds \<le> 9 \<and> startswith r ''/'' then
           (let suffix = takeWhile doi_suffix_char (drop 1 r) in
            if suffix = [] then None else Some (''10.'' @ ds @ ''/'' @ suffix))
         else None)
      else None)"

definition doi_match_at :: "string \<Rightarrow> (string \<times> string) option" where
  "doi_match_at s =
     (case (if length s \<ge> 4 \<and> lower (take 4 s) = ''doi:''
            then doi_core (dropWhile isspace (drop 4 s)) else None) of
        Some g1 \<Rightarrow> Some (take 4 s @ takeWhile isspace (drop 4 s) @ g1, g1)
      | None \<Rightarrow> (case doi_core s of Some g1 \<Rightarrow> Some (g1, g1) | None \<Rightarrow> None))"

fun doi_search :: "string \<Rightarrow> (string \<times> string) option" where
  "doi_search [] = None"
| "doi_search (c # cs) =
     (case doi_match_at (c # cs) of Some m \<Rightarrow> Some m | None \<Rightarrow> doi_search cs)"

definition doi_strip_chars :: string where
  "doi_strip_chars = ''.,;()[]!?'' @ [CHR 0x22, CHR 0x27]"

text \<open>The DOI step of \<^verbatim>\<open>papers_load\<close>: the text first, then the title.\<close>

definition extract_doi :: "string \<Rightarrow> string \<Rightarrow> pyval" where
  "extract_doi txt title =
     (case doi_search txt of
        Some (g0, g1) \<Rightarrow> Str (''https://doi.org/'' @ rstrip_chars doi_strip_chars g1)
      | None \<Rightarrow>
          (case doi_search title of
             Some (g0, g1) \<Rightarrow>
               Str (''https://doi.org/'' @ strip (remove_all ''doi:'' (rstrip_chars doi_strip_chars g0)))
           | None \<Rightarrow> Str ''NO PROVIDED DOI''))"

subsection \<open>papers_load and add_paper\<close>

text \<open>
  \<^verbatim>\<open>papers_load\<close>. The output writer gets the positional arguments of each call and
  the state it writes to; the loop over \<^verbatim>\<open>os.listdir(path)\<close> is \<open>papers_load_files\<close>,
  with \<open>items\<close> the papers appended so far. An exception of \<^verbatim>\<open>paper.load\<close> is not
  caught: it ends the function, after what was written before it.
\<close>

fun papers_load_files ::
  "env \<Rightarrow> (string list \<Rightarrow> 'w \<Rightarrow> 'w) \<Rightarrow> string \<Rightarrow> string list \<Rightarrow> paper list \<Rightarrow> 'w
     \<Rightarrow> (error + paper list) \<times> 'w" where
  "papers_load_files e output_writer path [] items w = (Inr items, w)"
| "papers_load_files e output_writer path (file_name # rest) items w =
     (if \<not> endswith (lower file_name) ''.pdf'' then
        papers_load_files e output_writer path rest items
          (output_writer [''Error: '' @ file_name @ '' is not a PDF file. Skipping.''] w)
      else
        (let file_path = path_join path file_name;
             w1 = output_writer [''Phrasing file: '' @ file_name] w
         in case load e Paper file_path of
              Inl err \<Rightarrow> (Inl err, w1)
            | Inr (loaded, paper) \<Rightarrow>
                if \<not> loaded then
                  papers_load_files e output_writer path rest items
                    (output_writer [''Failed to load: '' @ file_path] w1)
                else
                  (let w2 = output_writer [''Extracting DOI Link'', ''-------''] w1;
                       paper1 = paper\<lparr>paper_doi := extract_doi (paper_text paper) (paper_title paper)\<rparr>;
                       w3 = output_writer [''DOI link extracted''] w2;
                       w4 = output_writer [''Extracting Topics'', ''---------''] w3;
                       extracted_topics = extract_keywords e (paper_text paper1);
                       paper2 = (case extracted_topics of
                                   [] \<Rightarrow> paper1
                                 | first_topic # _ \<Rightarrow>
                                     paper1\<lparr>paper_topics := map fst extracted_topics,
                                            paper_main_keyphrase := fst first_topic\<rparr>);
                       w5 = output_writer [''Topics extracted''] w4
                   in papers_load_files e output_writer path rest (items @ [paper2]) w5)))"

definition papers_load ::
  "env \<Rightarrow> (string list \<Rightarrow> 'w \<Rightarrow> 'w) \<Rightarrow> string \<Rightarrow> 'w \<Rightarrow> (error + paper list) \<times> 'w" where
  "papers_load e output_writer path w =
     (let path1 = os_path_expanduser e path in
      if \<not> os_path_exists e path1 then (Inr [], w)
      else papers_load_files e output_writer path1 (os_listdir e path1) [] w)"

text \<open>
  \<^verbatim>\<open>add_paper(session, sentence_transformer, paper)\<close>: \<open>paper\<close> is a dict, the session is
  the graph it writes to, and the embedding is the encoder's vector as a list of numbers
  (\<^verbatim>\<open>.tolist()\<close>).
\<close>

definition add_paper :: "env \<Rightarrow> graph \<Rightarrow> (string \<times> pyval) list \<Rightarrow> graph" where
  "add_paper e g paper =
     (let filename = dict_get paper ''filename'' (Str ''No filename'');
          title = dict_get paper ''title'' (Str ''No title'');
          year = dict_get paper ''year'' (Str ''No year'');
          authors = dict_get paper ''authors'' (PyList [Str ''No authors'']);
          topics = dict_get paper ''topics'' (PyList [Str ''No topics'']);
          doi = dict_get paper ''doi'' (Str ''NO DOI'');
          main_keyphrase = dict_get paper ''main_keyphrase'' (Str ''No keyphrase'');
          embedding = PyList (map Num (encode e main_keyphrase));
          g1 = merge_paper g filename title year embedding doi;
          g2 = foldl (\<lambda>h author. merge_author h filename author) g1 (py_iter authors)
      in foldl (\<lambda>h topic. merge_topic h filename topic) g2 (py_iter topics))"

subsection \<open>analysis.py\<close>

text \<open>
  \<^verbatim>\<open>Analysis.find_papers_by_similarity\<close>. The driver answers the semantic query with its
  rows, which have all columns of the query, so that the defaults of \<^verbatim>\<open>record.get\<close> are
  not used; a row of the result is \<^verbatim>\<open>[Title, Author, DOI, similarity]\<close>. Python's
  \<^verbatim>\<open>sorted(papers, key=lambda x: x[3], reverse=True)\<close> is stable: rows of equal
  similarity keep their order, which is a stable ascending sort on the negated key.
\<close>

type_synonym result_row = "pyval \<times> pyval \<times> pyval \<times> real"

definition similarity :: "result_row \<Rightarrow> real" where
  "similarity x = snd (snd (snd x))"

fun similar_papers :: "env \<Rightarrow> real list \<Rightarrow> real \<Rightarrow> db_record list \<Rightarrow> result_row list" where
  "similar_papers e query_vec threshold [] = []"
| "similar_papers e query_vec threshold (record # rest) =
     (let paper_embedding = Embedding record in
      if \<not> truthy paper_embedding then similar_papers e query_vec threshold rest
      else
        (let paper_similarity = cosine_similarity e query_vec paper_embedding in
         if paper_similarity < threshold then similar_papers e query_vec threshold rest
         else (Title record, Author record, DOI record, paper_similarity)
                # similar_papers e query_vec threshold rest))"

definition find_papers_by_similarity ::
  "env \<Rightarrow> (read_query \<Rightarrow> db_record list) \<Rightarrow> string \<Rightarrow> int \<Rightarrow> real \<Rightarrow> result_row list" where
  "find_papers_by_similarity e driver query_text top_n threshold =
     (let result = driver Query_search_by_semantic;
          query_vec = encode e (Str query_text);
          papers = similar_papers e query_vec threshold result
      in slice_to top_n (sort_key (\<lambda>x. - similarity x) papers))"

subsection \<open>The command line interface\<close>

datatype vis_papers = Records "db_record list" | Dicts "(string \<times> pyval) list list"

text \<open>
  The state of a \<^verbatim>\<open>CommandLineInterface\<close>: its attributes, the text of the input field
  and of the output area, the width of the rendered output window if it has been
  rendered, the database behind the session, and what the interface has done outside
  itself: the loading threads it has started (by their path), the calls of
  \<^verbatim>\<open>visualise_output\<close> (papers, central label, \<^verbatim>\<open>use_similarity\<close>), the number of
  \<^verbatim>\<open>application.invalidate()\<close> calls, whether \<^verbatim>\<open>application.exit()\<close> was called and
  what was printed to the standard output.
\<close>

record cli =
  running :: bool
  max_character_limit :: int
  input_field_text :: string
  output_area_text :: string
  render_info :: "int option"
  session :: graph
  all_papers :: "paper list"
  threads :: "string list"
  visualisations :: "(vis_papers \<times> string \<times> bool) list"
  invalidations :: nat
  application_exited :: bool
  stdout :: "string list"

text \<open>
  The interface after \<^verbatim>\<open>__init__\<close> and the set-up of \<^verbatim>\<open>run\<close>: the output area shows
  the welcome banner.
\<close>

definition CommandLineInterface :: "string \<Rightarrow> graph \<Rightarrow> cli" where
  "CommandLineInterface welcome_message driver_session =
     \<lparr>running = True, max_character_limit = 100, input_field_text = [],
      output_area_text = welcome_message @ nl, render_info = None,
      session = driver_session, all_papers = [], threads = [], visualisations = [],
      invalidations = 0, application_exited = False, stdout = []\<rparr>"

definition output_clear :: "cli \<Rightarrow> cli" where
  "output_clear s = s\<lparr>output_area_text := []\<rparr>"

definition output_write :: "cli \<Rightarrow> string \<Rightarrow> cli" where
  "output_write s txt = s\<lparr>output_area_text := output_area_text s @ txt @ nl\<rparr>"

text \<open>\<^verbatim>\<open>output_print(text, end)\<close>, and its call with positional arguments.\<close>

definition output_print_end :: "cli \<Rightarrow> string \<Rightarrow> string \<Rightarrow> cli" where
  "output_print_end s txt ending =
     s\<lparr>output_area_text := output_area_text s @ txt @ ending,
       invalidations := Suc (invalidations s)\<rparr>"

definition output_print :: "cli \<Rightarrow> string \<Rightarrow> cli" where
  "output_print s txt = output_print_end s txt nl"

fun output_print_args :: "string list \<Rightarrow> cli \<Rightarrow> cli" where
  "output_print_args [txt] s = output_print s txt"
| "output_print_args (txt # ending # _) s = output_print_end s txt ending"
| "output_print_args [] s = s"

text \<open>\<^verbatim>\<open>visualise_output\<close> builds a network and writes it to an HTML file; the model
  records the call.\<close>

definition visualise_output :: "cli \<Rightarrow> vis_papers \<Rightarrow> string \<Rightarrow> bool \<Rightarrow> cli" where
  "visualise_output s papers central_label use_similarity =
     s\<lparr>visualisations := visualisations s @ [(papers, central_label, use_similarity)]\<rparr>"

subsection \<open>Commands\<close>

text \<open>\<^verbatim>\<open>str(n)\<close> of a length.\<close>

fun str_nat :: "nat \<Rightarrow> string" where
  "str_nat n = (if n < 10 then [char_of (48 + n)] else str_nat (n div 10) @ [char_of (48 + n mod 10)])"

definition quoted :: "string \<Rightarrow> string" where
  "quoted v = [CHR 0x27] @ v @ [CHR 0x27]"

definition unknown_command :: "string \<Rightarrow> string" where
  "unknown_command what = ''Unknown command '' @ quoted what"

text \<open>\<^verbatim>\<open>generate_table_str\<close>.\<close>

definition generate_table_str :: "env \<Rightarrow> cli \<Rightarrow> db_record list \<Rightarrow> string" where
  "generate_table_str e self rows =
     (let table = map (\<lambda>row. [py_or (Title row) (Str ''--''), py_or (Author row) (Str ''--''),
                                py_or (Year row) (Str ''--''), py_or (DOI row) (Str ''--'')]) rows
      in case render_info self of
           None \<Rightarrow> []
         | Some total_width \<Rightarrow>
             (let usable_width = total_width - 5;
                  col_widths = [py_int (real_of_int usable_width * 0.5),
                                py_int (real_of_int usable_width * 0.2),
                                py_int (real_of_int usable_width * 0.3)]
              in tabulate e table [''Title'', ''Author(s)'', ''Year'', ''DOI''] ''simple_grid''
                   (Widths col_widths)))"

definition command_exit :: "env \<Rightarrow> cli \<Rightarrow> cli" where
  "command_exit e self =
     self\<lparr>stdout := stdout self @ [application_repr e], running := False,
          application_exited := True\<rparr>"

text \<open>The text of \<^verbatim>\<open>command_help\<close>, line by line.\<close>

definition help_text :: string where
  "help_text = concat (map (\<lambda>l. l @ nl)
     [''Available commands:'',
      '''',
      ''----------------- General ------------------  '',
      '' list papers                lp'',
      '''',
      ''----- Searching by semantic similarity -----  '',
      '' simsearch  <text>          ss  <text>'',
      '' vsimsearch <text>          vss <text>'',
      '''',
      ''------ Searching by title/author/topic -----  '',
      '' search  title  <title>     st  <title>'',
      '' search  author <name>      sa  <name>'',
      '' search  topic  <topic>     sp  <topic>'',
      '' vsearch <type> <text>     vsh <type> <text>'',
      '''',
      ''----------------- Database -----------------  '',
      '' add <directory_path>       a <directory_path>'',
      '''',
      ''-------------- Miscellaneous ---------------  '',
      '' help (this message)        h'',
      '' exit                       e'',
      ''''])"

definition command_help :: "cli \<Rightarrow> cli" where
  "command_help self = output_write self help_text"

definition command_list_papers :: "env \<Rightarrow> cli \<Rightarrow> string list \<Rightarrow> cli" where
  "command_list_papers e self tokens =
     (if tokens \<noteq> [''lp''] \<and> tokens \<noteq> [''list'', ''papers''] then
        output_write self (unknown_command (join '' '' tokens))
      else
        (let rows = run_query e (session self) Query_list_papers in
         if rows = [] then output_write self ''No papers found.''
         else
           (let result = generate_table_str e self rows;
                s1 = output_write self (''=== '' @ str_nat (length rows) @ '' papers in the database ==='')
            in output_write s1 result)))"

definition command_search_by_title :: "env \<Rightarrow> cli \<Rightarrow> string \<Rightarrow> bool \<Rightarrow> cli" where
  "command_search_by_title e self title_value visualsation =
     (let result = run_query e (session self) (Query_search_by_title title_value) in
      if result = [] then
        output_write self (''No papers found with title containing '' @ quoted title_value @ ''.'')
      else
        (let s1 = output_write self (''=== Papers with title containing '' @ quoted title_value @ '' ==='');
             s2 = output_write s1 (generate_table_str e s1 result)
         in if visualsation then visualise_output s2 (Records result) title_value False else s2))"

definition command_search_by_author :: "env \<Rightarrow> cli \<Rightarrow> string \<Rightarrow> bool \<Rightarrow> cli" where
  "command_search_by_author e self author_name visualsation =
     (let result = run_query e (session self) (Query_search_by_author author_name) in
      if result = [] then
        output_write self (''No results found for author containing '' @ quoted author_name @ ''.'')
      else
        (let s1 = output_write self (''=== Papers by author containing '' @ quoted author_name @ '' ==='');
             s2 = output_write s1 (generate_table_str e s1 result)
         in if visualsation then visualise_output s2 (Records result) author_name False else s2))"

definition command_search_by_topic :: "env \<Rightarrow> cli \<Rightarrow> string \<Rightarrow> bool \<Rightarrow> cli" where
  "command_search_by_topic e self topic_val visualsation =
     (let result = run_query e (session self) (Query_search_by_topic topic_val) in
      if result = [] then
        output_write self (''No papers found with topic containing '' @ quoted topic_val @ ''.'')
      else
        (let s1 = output_write self (''=== Papers with topic containing '' @ quoted topic_val @ '' ==='');
             s2 = output_write s1 (generate_table_str e s1 result)
         in if visualsation then visualise_output s2 (Records result) topic_val False else s2))"

text \<open>\<^verbatim>\<open>search_map\<close> of \<^verbatim>\<open>command_search\<close>.\<close>

definition search_map :: "(string \<times> string option) list" where
  "search_map = [(''st'', Some ''title''), (''sa'', Some ''author''), (''sp'', Some ''topic''),
                 (''search'', None), (''vst'', Some ''title''), (''vsa'', Some ''author''),
                 (''vsp'', Some ''topic'')]"

definition search_dispatch :: "env \<Rightarrow> cli \<Rightarrow> string option \<Rightarrow> string \<Rightarrow> bool \<Rightarrow> cli" where
  "search_dispatch e self sub_cmd v visualise =
     (if sub_cmd = Some ''title'' then command_search_by_title e self v visualise
      else if sub_cmd = Some ''author'' then command_search_by_author e self v visualise
      else if sub_cmd = Some ''topic'' then command_search_by_topic e self v visualise
      else output_write self ''Unknown search type. Must be: title, author, or topic.'')"

definition command_search :: "env \<Rightarrow> cli \<Rightarrow> string list \<Rightarrow> cli" where
  "command_search e self tokens =
     (if length tokens < 2 then output_write self (unknown_command (join '' '' tokens))
      else
        (let visualise = (tokens ! 0 \<in> set [''vsearch'', ''vsh'', ''vst'', ''vsa'', ''vsp'']);
             cmd = lower (tokens ! 0)
         in if cmd \<in> set [''search'', ''vsearch'', ''vsh''] then
              (if length tokens < 3 then
                 output_write self (''Usage: '' @ cmd @ '' <title|author|topic> <value>'')
               else search_dispatch e self (Some (lower (tokens ! 1))) (tokens ! 2) visualise)
            else
              (case map_of search_map cmd of
                 Some sub_cmd \<Rightarrow> search_dispatch e self sub_cmd (tokens ! 1) visualise
               | None \<Rightarrow> output_write self (unknown_command cmd))))"

text \<open>The query text of the two similarity commands, for at least two tokens.\<close>

definition similarity_query_text :: "string list \<Rightarrow> string" where
  "similarity_query_text tokens =
     (if length tokens = 2 then tokens ! 1 else tokens ! 1 @ '' '' @ tokens ! 2)"

definition result_cells :: "result_row \<Rightarrow> pyval list" where
  "result_cells x = (case x of (title, author, doi, sim) \<Rightarrow> [title, author, doi, Num sim])"

definition command_search_by_similarity :: "env \<Rightarrow> cli \<Rightarrow> string list \<Rightarrow> cli" where
  "command_search_by_similarity e self tokens =
     (if length tokens < 2 then output_write self (unknown_command (join '' '' tokens))
      else
        (let query_text = similarity_query_text tokens;
             results = find_papers_by_similarity e (run_query e (session self)) query_text 15 0.2
         in if results = [] then
              output_write self ''No papers found with embedding. Please ensure you stored them!''
            else
              (let s1 = output_write self
                          (''=== Semantic Search Results for '' @ quoted query_text @ '' ==='')
               in output_write s1
                    (tabulate e (map result_cells results)
                       [''Title'', ''Author'', ''DOI'', ''Similarity''] ''simple_grid'' (Width 50)))))"

definition command_search_by_vsemantic :: "env \<Rightarrow> cli \<Rightarrow> string list \<Rightarrow> cli" where
  "command_search_by_vsemantic e self tokens =
     (if length tokens < 2 then output_write self (unknown_command (join '' '' tokens))
      else
        (let query_text = similarity_query_text tokens;
             results = find_papers_by_similarity e (run_query e (session self)) query_text 15 0.2;
             s0 = (if results = [] then
                     output_write self ''No papers found with embedding. Please ensure you stored them!''
                   else self);
             s1 = output_write s0 (''=== Semantic Search Results for '' @ quoted query_text @ '' ==='');
             s2 = output_write s1
                    (tabulate e (map result_cells results)
                       [''Title'', ''Author'', ''DOI'', ''Similarity''] ''simple_grid'' (Width 50));
             papers = map (\<lambda>x. case x of (title, author, doi, sim) \<Rightarrow>
                             [(''Title'', title), (''Author'', author), (''DOI'', doi),
                              (''Similarity'', Num sim)]) results
         in visualise_output s2 (Dicts papers) query_text True))"

text \<open>
  \<^verbatim>\<open>command_add_papers_by_users\<close> checks the path and starts the loading thread;
  \<open>paper_loading_thread\<close> is the body of that thread, \<open>paper_data\<close> the dict it builds for
  each paper and \<open>upload_paper\<close> one round of its second loop.
\<close>

definition paper_data :: "paper \<Rightarrow> (string \<times> pyval) list" where
  "paper_data paper =
     [(''path'', Str (paper_path paper)),
      (''id'', Str (paper_title paper)),
      (''filename'', Str (paper_filename paper)),
      (''Year'', Str (paper_year paper)),
      (''title'', Str (paper_title paper)),
      (''text'', Str (paper_text paper)),
      (''authors'', PyList (if paper_author paper \<noteq> [] then [Str (paper_author paper)] else [])),
      (''topics'', PyList (map Str (paper_topics paper))),
      (''main_keyphrase'', Str (paper_main_keyphrase paper)),
      (''doi'', paper_doi paper)]"



definition command_add_papers_by_users :: "env \<Rightarrow> cli \<Rightarrow> string list \<Rightarrow> cli" where
  "command_add_papers_by_users e self tokens =
     (if length tokens \<le> 1 then output_print self (unknown_command (join '' '' tokens))
      else
        (let path = tokens ! 1 in
         if \<not> os_path_exists e path then
           output_print self (''Error: Path-'' @ quoted path @ '' doesn'' @ [CHR 0x27]
                              @ ''t exist, please enter correct path!'')
         else if \<not> os_path_isdir e path then
           output_print self (''Error: Path-'' @ quoted path @ '' doesn'' @ [CHR 0x27]
                              @ ''t a folder, please enter correct path!'')
         else self\<lparr>threads := threads self @ [path]\<rparr>))"

text \<open>
  The table \<^verbatim>\<open>self.commands\<close> of \<^verbatim>\<open>__init__\<close>, from command word to command function,
  and \<^verbatim>\<open>command_handler\<close>, which gets the text of the input field. Each command function
  is called with \<^verbatim>\<open>[tokens]\<close> and reads \<^verbatim>\<open>args[0]\<close>: the model passes \<open>tokens\<close>.
\<close>

datatype command =
    Command_exit
  | Command_help
  | Command_list_papers
  | Command_search
  | Command_search_by_similarity
  | Command_search_by_vsemantic
  | Command_add_papers_by_users

definition commands :: "(string \<times> command) list" where
  "commands =
     [(''exit'', Command_exit),
      (''help'', Command_help),
      (''list'', Command_list_papers),
      (''search'', Command_search),
      (''vsearch'', Command_search),
      (''simsearch'', Command_search_by_similarity),
      (''vsimsearch'', Command_search_by_vsemantic),
      (''add'', Command_add_papers_by_users),
      (''e'', Command_exit),
      (''h'', Command_help),
      (''lp'', Command_list_papers),
      (''st'', Command_search),
      (''sa'', Command_search),
      (''sp'', Command_search),
      (''ss'', Command_search_by_similarity),
      (''vsh'', Command_search),
      (''vss'', Command_search_by_vsemantic),
      (''a'', Command_add_papers_by_users)]"

fun call_command :: "env \<Rightarrow> command \<Rightarrow> cli \<Rightarrow> string list \<Rightarrow> cli" where
  "call_command e Command_exit self tokens = command_exit e self"
| "call_command e Command_help self tokens = command_help self"
| "call_command e Command_list_papers self tokens = command_list_papers e self tokens"
| "call_command e Command_search self tokens = command_search e self tokens"
| "call_command e Command_search_by_similarity self tokens = command_search_by_similarity e self tokens"
| "call_command e Command_search_by_vsemantic self tokens = command_search_by_vsemantic e self tokens"
| "call_command e Command_add_papers_by_users self tokens = command_add_papers_by_users e self tokens"

definition command_handler :: "env \<Rightarrow> cli \<Rightarrow> cli" where
  "command_handler e self =
     (let tokens = split_ws 2 (strip (input_field_text self)) in
      if length tokens = 0 then self
      else
        (let main_cmd = lower (tokens ! 0) in
         case map_of commands main_cmd of
           Some func \<Rightarrow> call_command e func (output_clear self) tokens
         | None \<Rightarrow> output_write (output_clear self) (unknown_command main_cmd)))"

subsection \<open>The input field\<close>

text \<open>
  \<^verbatim>\<open>CommandLineInterface.input_limit_length\<close>, the callback of the buffer's
  \<^verbatim>\<open>on_text_changed\<close> event: it gets the buffer and cuts its text.
\<close>

definition input_limit_length :: "cli \<Rightarrow> string \<Rightarrow> string" where
  "input_limit_length self buffer_text =
     (if int (length buffer_text) > max_character_limit self
      then slice_to (max_character_limit self) buffer_text else buffer_text)"

text \<open>A change of the text of the input field: the new text is set, then the callback runs.\<close>

definition text_changed :: "cli \<Rightarrow> string \<Rightarrow> cli" where
  "text_changed s new_text = s\<lparr>input_field_text := input_limit_length s new_text\<rparr>"

text \<open>
  What happens to the interface while it runs: the text of the input field changes, or a
  line is accepted. On an accepted line \<^verbatim>\<open>command_handler\<close> runs on the text of the
  input field; it returns \<^verbatim>\<open>None\<close>, so the toolkit then resets the buffer to the empty
  text.
\<close>

datatype ui_event = Text_changed string | Accept

fun ui_step :: "env \<Rightarrow> cli \<Rightarrow> ui_event \<Rightarrow> cli" where
  "ui_step e s (Text_changed new_text) = text_changed s new_text"
| "ui_step e s Accept = (command_handler e s)\<lparr>input_field_text := []\<rparr>"

subsection \<open>Sample data\<close>

text \<open>
  A small world for concrete runs: a directory \<^verbatim>\<open>/papers\<close> with one PDF and one text
  file, a keyword extractor that finds two phrases (or none, in \<open>sample_env_no_keywords\<close>),
  an encoder and a similarity that are simple functions of their arguments, a database
  that answers every read query with no rows, and three stored rows for the similarity
  search.
\<close>

definition empty_graph :: graph where
  "empty_graph = \<lparr>paper_nodes = [], author_nodes = [], topic_nodes = [], wrote = [], has_topic = []\<rparr>"

definition sample_document :: pdf_document where
  "sample_document =
     \<lparr>metadata = [(''title'', ''DOI:10.1234/abc''), (''creationDate'', ''D:20240102''),
                  (''author'', ''Ada''), (''subject'', ''Graphs'')],
      pages = [''Graph search. '', ''No identifier here.'']\<rparr>"

definition sample_env :: env where
  "sample_env =
     \<lparr>os_path_expanduser = (\<lambda>p. p),
      os_path_exists = (\<lambda>p. p = ''/papers'' \<or> p = ''/notes.txt''),
      os_path_isdir = (\<lambda>p. p = ''/papers''),
      os_listdir = (\<lambda>p. if p = ''/papers'' then [''readme.txt'', ''a.pdf''] else []),
      pymupdf_open = (\<lambda>p. if p = ''/papers/a.pdf'' then Some sample_document else None),
      extract_keywords = (\<lambda>t. [(''graph ranking'', 0.7), (''identifier'', 0.4)]),
      encode = (\<lambda>v. case v of Str s \<Rightarrow> [real (length s), 1] | _ \<Rightarrow> []),
      cosine_similarity = (\<lambda>q v. case v of PyList (Num x # _) \<Rightarrow> x | _ \<Rightarrow> 0),
      tabulate = (\<lambda>table headers tablefmt widths. ''<table>''),
      run_query = (\<lambda>g q. []),
      application_repr = ''<Application>''\<rparr>"

text \<open>The paper that \<^verbatim>\<open>papers_load\<close> makes of the PDF, with and without key phrases.\<close>

definition sample_paper :: paper where
  "sample_paper =
     \<lparr>paper_path = ''/papers/a.pdf'', paper_filename = ''a.pdf'', paper_year = ''2024'',
      paper_title = ''DOI:10.1234/abc'', paper_author = ''Ada'', paper_subject = ''Graphs'',
      paper_text = ''Graph search. No identifier here.'',
      paper_topics = [''graph ranking'', ''identifier''],
      paper_main_keyphrase = ''graph ranking'',
      paper_doi = Str ''https://doi.org/DOI:10.1234/abc''\<rparr>"

definition sample_paper_no_keywords :: paper where
  "sample_paper_no_keywords =
     sample_paper\<lparr>paper_topics := [], paper_main_keyphrase := ''No keyphrase''\<rparr>"

definition sample_env_no_keywords :: env where
  "sample_env_no_keywords = sample_env\<lparr>extract_keywords := (\<lambda>t. [])\<rparr>"

definition sample_record :: "string \<Rightarrow> pyval \<Rightarrow> db_record" where
  "sample_record title embedding =
     \<lparr>Filename = Str (title @ ''.pdf''), Title = Str title, Author = Str ''No Author'',
      Year = Str ''2024'', DOI = Str ''NO PROVIDED DOI'', Topic = PyNone, Embedding = embedding\<rparr>"

definition sample_driver :: "read_query \<Rightarrow> db_record list" where
  "sample_driver q =
     [sample_record ''A'' (PyList [Num 0.5]), sample_record ''B'' (PyList [Num 0.1]),
      sample_record ''C'' (PyList [Num 0.9]), sample_record ''D'' (PyList [])]"

section \<open>Properties\<close>

subsection \<open>The length of the input\<close>

lemma output_write_frame [simp]:
  "max_character_limit (output_write s t) = max_character_limit s"
  "input_field_text (output_write s t) = input_field_text s"
  by (simp_all add: output_write_def)

lemma visualise_output_frame [simp]:
  "max_character_limit (visualise_output s p l u) = max_character_limit s"
  "input_field_text (visualise_output s p l u) = input_field_text s"
  by (simp_all add: visualise_output_def)

lemma output_print_frame [simp]:
  "max_character_limit (output_print s t) = max_character_limit s"
  "input_field_text (output_print s t) = input_field_text s"
  by (simp_all add: output_print_def output_print_end_def)

lemma search_by_frame [simp]:
  "max_character_limit (command_search_by_title e s v b) = max_character_limit s"
  "input_field_text (command_search_by_title e s v b) = input_field_text s"
  "max_character_limit (command_search_by_author e s v b) = max_character_limit s"
  "input_field_text (command_search_by_author e s v b) = input_field_text s"
  "max_character_limit (command_search_by_topic e s v b) = max_character_limit s"
  "input_field_text (command_search_by_topic e s v b) = input_field_text s"
  by (simp_all add: command_search_by_title_def command_search_by_author_def
      command_search_by_topic_def Let_def)

lemma search_dispatch_frame [simp]:
  "max_character_limit (search_dispatch e s c v b) = max_character_limit s"
  "input_field_text (search_dispatch e s c v b) = input_field_text s"
  by (simp_all add: search_dispatch_def)

lemma call_command_frame:
  "max_character_limit (call_command e f s tokens) = max_character_limit s \<and>
   input_field_text (call_command e f s tokens) = input_field_text s"
  by (cases f)
     (simp_all add: command_exit_def command_help_def command_list_papers_def
        command_search_def command_search_by_similarity_def command_search_by_vsemantic_def
        command_add_papers_by_users_def Let_def split: option.splits)

lemma command_handler_frame:
  "max_character_limit (command_handler e s) = max_character_limit s \<and>
   input_field_text (command_handler e s) = input_field_text s"
  by (simp add: command_handler_def Let_def call_command_frame output_clear_def split: option.splits)

lemma input_limit_length_le:
  "0 \<le> max_character_limit s \<Longrightarrow> int (length (input_limit_length s t)) \<le> max_character_limit s"
  by (auto simp: input_limit_length_def slice_to_def)

lemma ui_step_invariant:
  "max_character_limit s = 100 \<and> length (input_field_text s) \<le> 100 \<Longrightarrow>
   max_character_limit (ui_step e s ev) = 100 \<and> length (input_field_text (ui_step e s ev)) \<le> 100"
  using input_limit_length_le [of s]
  by (cases ev) (auto simp: text_changed_def command_handler_frame)

lemma ui_steps_invariant:
  "max_character_limit s = 100 \<and> length (input_field_text s) \<le> 100 \<Longrightarrow>
   max_character_limit (foldl (ui_step e) s evs) = 100 \<and>
   length (input_field_text (foldl (ui_step e) s evs)) \<le> 100"
proof (induction evs arbitrary: s)
  case Nil
  then show ?case by simp
next
  case (Cons ev evs)
  show ?case using Cons.IH [OF ui_step_invariant [OF Cons.prems]] by simp
qed

text \<open>
  Claim C8. The input field never holds more than 100 characters: from the interface as
  it starts, after any sequence of text changes and accepted lines the text of the input
  field is at most 100 characters long, and a text change to a longer text leaves its
  first 100 characters (a text of at most 100 characters is kept as it is).
\<close>

theorem input_never_exceeds_limit:
  "length (input_field_text (foldl (ui_step e) (CommandLineInterface welcome_message g) evs)) \<le> 100
   \<and> input_field_text (text_changed (foldl (ui_step e) (CommandLineInterface welcome_message g) evs) new_text)
       = (if length new_text > 100 then take 100 new_text else new_text)"
proof -
  let ?s = "foldl (ui_step e) (CommandLineInterface welcome_message g) evs"
  have inv: "max_character_limit ?s = 100 \<and> length (input_field_text ?s) \<le> 100"
    by (rule ui_steps_invariant) (simp add: CommandLineInterface_def)
  then show ?thesis
    by (simp add: text_changed_def input_limit_length_def slice_to_def)
qed

subsection \<open>Similarity search\<close>

lemma similar_papers_eq:
  "similar_papers e q t rows =
     map (\<lambda>r. (Title r, Author r, DOI r, cosine_similarity e q (Embedding r)))
       (filter (\<lambda>r. truthy (Embedding r) \<and> t \<le> cosine_similarity e q (Embedding r)) rows)"
  by (induction rows) (auto simp: Let_def)

text \<open>
  Claim C1. For every query text, stored record set, threshold \<open>t\<close> and limit \<open>N\<close> (the
  number of papers to return, so \<open>N \<ge> 0\<close>), \<^verbatim>\<open>find_papers_by_similarity\<close> returns the rows
  of exactly the records whose cosine similarity with the query embedding is at least
  \<open>t\<close>, in descending order of similarity, cut to the first \<open>N\<close>: the result is sorted,
  every row of it reaches the threshold and it has at most \<open>N\<close> rows. The similarity is
  computed for the records that have an embedding; rows of equal similarity keep their
  stored order.
\<close>

theorem find_papers_by_similarity_ranking:
  assumes "0 \<le> top_n"
  shows "find_papers_by_similarity e driver query_text top_n threshold =
           take (nat top_n) (sort_key (\<lambda>x. - similarity x)
             (map (\<lambda>r. (Title r, Author r, DOI r,
                         cosine_similarity e (encode e (Str query_text)) (Embedding r)))
                (filter (\<lambda>r. truthy (Embedding r)
                           \<and> threshold \<le> cosine_similarity e (encode e (Str query_text)) (Embedding r))
                   (driver Query_search_by_semantic))))
         \<and> sorted_wrt (\<lambda>a b. similarity b \<le> similarity a)
             (find_papers_by_similarity e driver query_text top_n threshold)
         \<and> list_all (\<lambda>x. threshold \<le> similarity x)
             (find_papers_by_similarity e driver query_text top_n threshold)
         \<and> int (length (find_papers_by_similarity e driver query_text top_n threshold)) \<le> top_n"
proof -
  let ?q = "encode e (Str query_text)"
  let ?papers = "similar_papers e ?q threshold (driver Query_search_by_semantic)"
  have res: "find_papers_by_similarity e driver query_text top_n threshold =
               take (nat top_n) (sort_key (\<lambda>x. - similarity x) ?papers)"
    using assms by (simp add: find_papers_by_similarity_def slice_to_def Let_def)
  have "sorted (map (\<lambda>x. - similarity x) (sort_key (\<lambda>x. - similarity x) ?papers))"
    by (rule sorted_sort_key)
  then have "sorted_wrt (\<lambda>a b. similarity b \<le> similarity a) (sort_key (\<lambda>x. - similarity x) ?papers)"
    by (simp add: sorted_map)
  then have srt: "sorted_wrt (\<lambda>a b. similarity b \<le> similarity a)
                    (take (nat top_n) (sort_key (\<lambda>x. - similarity x) ?papers))"
    by (rule sorted_wrt_take)
  have "\<forall>x \<in> set ?papers. threshold \<le> similarity x"
    by (auto simp: similar_papers_eq similarity_def)
  then have thr: "list_all (\<lambda>x. threshold \<le> similarity x)
                    (take (nat top_n) (sort_key (\<lambda>x. - similarity x) ?papers))"
    by (auto simp: list_all_iff dest: in_set_takeD)
  have len: "int (length (take (nat top_n) (sort_key (\<lambda>x. - similarity x) ?papers))) \<le> top_n"
    using assms by simp
  show ?thesis
    unfolding res using srt thr len by (simp add: similar_papers_eq)
qed

text \<open>
  Claim C1 at a concrete search: of the stored rows A (0.5), B (0.1), C (0.9) and
  D (empty embedding), the limit 2 and the threshold 0.2 give C, then A.
\<close>

theorem find_papers_by_similarity_ranking_witness:
  "(0::int) \<le> 2
   \<and> find_papers_by_similarity sample_env sample_driver ''graphs'' 2 0.2
     = [(Str ''C'', Str ''No Author'', Str ''NO PROVIDED DOI'', 0.9),
        (Str ''A'', Str ''No Author'', Str ''NO PROVIDED DOI'', 0.5)]
   \<and> int (length (find_papers_by_similarity sample_env sample_driver ''graphs'' 2 0.2)) \<le> 2"
  using find_papers_by_similarity_ranking [of 2 sample_env sample_driver "''graphs''" "0.2"]
  by (simp add: sample_env_def sample_driver_def sample_record_def similarity_def)

subsection \<open>Command dispatch\<close>

lemma commands_words:
  "set (map fst commands) =
     {''list'', ''search'', ''vsearch'', ''simsearch'', ''vsimsearch'', ''add'', ''help'', ''exit'',
      ''lp'', ''st'', ''sa'', ''sp'', ''vsh'', ''ss'', ''vss'', ''a'', ''h'', ''e''}"
  by (auto simp: commands_def)

text \<open>
  Claim C6. The command table has exactly the words list, search, vsearch, simsearch,
  vsimsearch, add, help, exit and lp, st, sa, sp, vsh, ss, vss, a, h, e. For every input
  line whose first token, in lower case, is none of them, the handler leaves the
  interface as it was but for the output area, which holds the message
  \<^verbatim>\<open>Unknown command '<token>'\<close> and nothing else: no command function has run.
\<close>

theorem command_dispatch:
  "set (map fst commands) =
     {''list'', ''search'', ''vsearch'', ''simsearch'', ''vsimsearch'', ''add'', ''help'', ''exit'',
      ''lp'', ''st'', ''sa'', ''sp'', ''vsh'', ''ss'', ''vss'', ''a'', ''h'', ''e''}
   \<and> (\<forall>word rest.
         split_ws 2 (strip (input_field_text self)) = word # rest
         \<and> lower word \<notin>
             {''list'', ''search'', ''vsearch'', ''simsearch'', ''vsimsearch'', ''add'', ''help'',
              ''exit'', ''lp'', ''st'', ''sa'', ''sp'', ''vsh'', ''ss'', ''vss'', ''a'', ''h'', ''e''}
         \<longrightarrow> command_handler e self
               = self\<lparr>output_area_text := ''Unknown command '' @ quoted (lower word) @ nl\<rparr>)"
proof (intro conjI allI impI)
  show "set (map fst commands) =
     {''list'', ''search'', ''vsearch'', ''simsearch'', ''vsimsearch'', ''add'', ''help'', ''exit'',
      ''lp'', ''st'', ''sa'', ''sp'', ''vsh'', ''ss'', ''vss'', ''a'', ''h'', ''e''}"
    by (rule commands_words)
next
  fix word rest
  assume h: "split_ws 2 (strip (input_field_text self)) = word # rest
         \<and> lower word \<notin>
             {''list'', ''search'', ''vsearch'', ''simsearch'', ''vsimsearch'', ''add'', ''help'',
              ''exit'', ''lp'', ''st'', ''sa'', ''sp'', ''vsh'', ''ss'', ''vss'', ''a'', ''h'', ''e''}"
  then have "lower word \<notin> set (map fst commands)"
    unfolding commands_words by blast
  then have none: "map_of commands (lower word) = None"
    by (simp add: map_of_eq_None_iff)
  show "command_handler e self
          = self\<lparr>output_area_text := ''Unknown command '' @ quoted (lower word) @ nl\<rparr>"
    using h none
    by (simp add: command_handler_def Let_def output_clear_def output_write_def unknown_command_def)
qed

lemma frobnicate_tokens:
  "split_ws 2 (strip ''  Frobnicate now '') = [''Frobnicate'', ''now'']"
  by code_simp

lemma frobnicate_lower: "lower ''Frobnicate'' = ''frobnicate''"
  by code_simp

text \<open>
  Claim C6 at the input line \<^verbatim>\<open>  Frobnicate now \<close>: its first token in lower case is
  no command word, and the output area holds the message for it.
\<close>

theorem command_dispatch_witness:
  "split_ws 2 (strip (input_field_text
      ((CommandLineInterface [] empty_graph)\<lparr>input_field_text := ''  Frobnicate now ''\<rparr>)))
     = ''Frobnicate'' # [''now'']
   \<and> lower ''Frobnicate'' = ''frobnicate''
   \<and> output_area_text (command_handler sample_env
        ((CommandLineInterface [] empty_graph)\<lparr>input_field_text := ''  Frobnicate now ''\<rparr>))
     = ''Unknown command '' @ quoted ''frobnicate'' @ nl"
proof -
  let ?s = "(CommandLineInterface [] empty_graph)\<lparr>input_field_text := ''  Frobnicate now ''\<rparr>"
  have t: "split_ws 2 (strip (input_field_text ?s)) = ''Frobnicate'' # [''now'']"
    by (simp add: frobnicate_tokens)
  have l: "lower ''Frobnicate'' = ''frobnicate''" by (rule frobnicate_lower)
  have "command_handler sample_env ?s
          = ?s\<lparr>output_area_text := ''Unknown command '' @ quoted (lower ''Frobnicate'') @ nl\<rparr>"
    using command_dispatch [of ?s sample_env] t l by simp
  then show ?thesis using t l by simp
qed

subsection \<open>The add command on a bad path\<close>

text \<open>
  Claim C5. When the path given to the add command does not exist or is not a
  directory, the command prints one plain-text error message for it and does nothing
  else: the database behind the session and the list of started loading threads are
  as before.
\<close>

theorem add_rejects_bad_path:
  assumes "2 \<le> length tokens"
    and "\<not> os_path_exists e (tokens ! 1) \<or> \<not> os_path_isdir e (tokens ! 1)"
  shows "command_add_papers_by_users e self tokens =
           self\<lparr>output_area_text := output_area_text self
                    @ ''Error: Path-'' @ quoted (tokens ! 1) @ '' doesn'' @ [CHR 0x27]
                    @ (if \<not> os_path_exists e (tokens ! 1) then ''t exist'' else ''t a folder'')
                    @ '', please enter correct path!'' @ nl,
                  invalidations := Suc (invalidations self)\<rparr>
         \<and> session (command_add_papers_by_users e self tokens) = session self
         \<and> threads (command_add_papers_by_users e self tokens) = threads self"
  using assms
  by (auto simp: command_add_papers_by_users_def Let_def output_print_def output_print_end_def)

text \<open>
  Claim C5 at \<^verbatim>\<open>add /notes.txt\<close>, a path that exists and is a file: the message says it
  is not a folder, the database is still empty and no thread was started.
\<close>

theorem add_rejects_bad_path_witness:
  "2 \<le> length [''add'', ''/notes.txt'']
   \<and> os_path_exists sample_env ([''add'', ''/notes.txt''] ! 1)
   \<and> \<not> os_path_isdir sample_env ([''add'', ''/notes.txt''] ! 1)
   \<and> session (command_add_papers_by_users sample_env (CommandLineInterface [] empty_graph)
                 [''add'', ''/notes.txt'']) = empty_graph
   \<and> threads (command_add_papers_by_users sample_env (CommandLineInterface [] empty_graph)
                 [''add'', ''/notes.txt'']) = []
   \<and> output_area_text (command_add_papers_by_users sample_env (CommandLineInterface [] empty_graph)
                 [''add'', ''/notes.txt''])
       = nl @ ''Error: Path-'' @ quoted ''/notes.txt'' @ '' doesn'' @ [CHR 0x27]
            @ ''t a folder, please enter correct path!'' @ nl"
proof -
  have a: "2 \<le> length [''add'', ''/notes.txt'']" by simp
  have b: "\<not> os_path_exists sample_env ([''add'', ''/notes.txt''] ! 1)
        \<or> \<not> os_path_isdir sample_env ([''add'', ''/notes.txt''] ! 1)"
    by (simp add: sample_env_def)
  show ?thesis
    using add_rejects_bad_path [OF a b, of "CommandLineInterface [] empty_graph"] a b
    by (simp add: CommandLineInterface_def sample_env_def)
qed

text \<open>
  On a path that is a directory the command starts one loading thread for it and
  does nothing else. How that thread runs beside the interface and beside other
  loading threads is outside this model, which has the thread's body as the function
  \<open>paper_loading_thread\<close>.
\<close>

lemma add_starts_one_thread:
  assumes "2 \<le> length tokens"
    and "os_path_exists e (tokens ! 1)" and "os_path_isdir e (tokens ! 1)"
  shows "command_add_papers_by_users e self tokens = self\<lparr>threads := threads self @ [tokens ! 1]\<rparr>"
  using assms by (simp add: command_add_papers_by_users_def Let_def)

subsection \<open>Paper nodes are created once\<close>

lemma merge_author_paper_nodes [simp]: "paper_nodes (merge_author g f a) = paper_nodes g"
  by (simp add: merge_author_def Let_def)

lemma merge_topic_paper_nodes [simp]: "paper_nodes (merge_topic g f t) = paper_nodes g"
  by (simp add: merge_topic_def Let_def)

lemma foldl_merge_author_paper_nodes [simp]:
  "paper_nodes (foldl (\<lambda>h a. merge_author h f a) g xs) = paper_nodes g"
  by (induction xs arbitrary: g) simp_all

lemma foldl_merge_topic_paper_nodes [simp]:
  "paper_nodes (foldl (\<lambda>h t. merge_topic h f t) g xs) = paper_nodes g"
  by (induction xs arbitrary: g) simp_all

lemma add_paper_paper_nodes:
  "paper_nodes (add_paper e g paper) =
     merge_node (paper_nodes g) ''filename'' (dict_get paper ''filename'' (Str ''No filename''))
       [(''title'', dict_get paper ''title'' (Str ''No title'')),
        (''year'', dict_get paper ''year'' (Str ''No year'')),
        (''embedding'', PyList (map Num (encode e (dict_get paper ''main_keyphrase'' (Str ''No keyphrase''))))),
        (''doi'', dict_get paper ''doi'' (Str ''NO DOI''))]"
  by (simp add: add_paper_def Let_def merge_paper_def)

lemma merge_node_unique:
  assumes "\<forall>w. length (filter (\<lambda>n. map_of n k = Some w) ns) \<le> 1"
  shows "length (filter (\<lambda>n. map_of n k = Some w) (merge_node ns k v oc)) \<le> 1"
proof (cases "\<exists>n \<in> set ns. map_of n k = Some v")
  case True
  then show ?thesis using assms by (simp add: merge_node_def)
next
  case False
  then have "filter (\<lambda>n. map_of n k = Some v) ns = []"
    by (simp add: filter_empty_conv)
  then show ?thesis using False assms [rule_format, of w]
    by (cases "w = v") (simp_all add: merge_node_def)
qed

text \<open>
  Claim C2. Paper nodes are keyed by filename. For every call of \<^verbatim>\<open>add_paper\<close>: if a
  Paper node with the given filename is in the store, the Paper nodes are exactly as
  before, so its title, year, embedding and doi are unchanged; if there is none, one
  node is added, with the filename and the title, year, embedding and doi of the call
  (a property whose value is null is not stored). A store with at most one Paper node
  for each filename stays so.
\<close>

theorem add_paper_create_if_absent:
  "(if \<exists>n \<in> set (paper_nodes g).
         map_of n ''filename'' = Some (dict_get paper ''filename'' (Str ''No filename''))
    then paper_nodes (add_paper e g paper) = paper_nodes g
    else paper_nodes (add_paper e g paper) =
           paper_nodes g @
             [(''filename'', dict_get paper ''filename'' (Str ''No filename'')) #
              cypher_set
                [(''title'', dict_get paper ''title'' (Str ''No title'')),
                 (''year'', dict_get paper ''year'' (Str ''No year'')),
                 (''embedding'',
                    PyList (map Num (encode e (dict_get paper ''main_keyphrase'' (Str ''No keyphrase''))))),
                 (''doi'', dict_get paper ''doi'' (Str ''NO DOI''))]])
   \<and> ((\<forall>name. length (filter (\<lambda>n. map_of n ''filename'' = Some name) (paper_nodes g)) \<le> 1)
        \<longrightarrow> (\<forall>name. length (filter (\<lambda>n. map_of n ''filename'' = Some name)
                              (paper_nodes (add_paper e g paper))) \<le> 1))"
  using merge_node_unique [of "''filename''" "paper_nodes g"]
  by (simp add: add_paper_paper_nodes merge_node_def)

text \<open>
  Claim C2 at two calls for the file \<^verbatim>\<open>a.pdf\<close> on an empty store: the first creates the
  node, the second, with another title, year, key phrase and doi, leaves it as it is.
\<close>

theorem add_paper_create_if_absent_witness:
  "(\<forall>name. length (filter (\<lambda>n. map_of n ''filename'' = Some name) (paper_nodes empty_graph)) \<le> 1)
   \<and> paper_nodes (add_paper sample_env empty_graph
        [(''filename'', Str ''a.pdf''), (''title'', Str ''First title''),
         (''doi'', Str ''NO PROVIDED DOI''), (''main_keyphrase'', Str ''graphs'')])
     = [[(''filename'', Str ''a.pdf''), (''title'', Str ''First title''), (''year'', Str ''No year''),
         (''embedding'', PyList [Num 6, Num 1]), (''doi'', Str ''NO PROVIDED DOI'')]]
   \<and> paper_nodes (add_paper sample_env
        (add_paper sample_env empty_graph
           [(''filename'', Str ''a.pdf''), (''title'', Str ''First title''),
            (''doi'', Str ''NO PROVIDED DOI''), (''main_keyphrase'', Str ''graphs'')])
        [(''filename'', Str ''a.pdf''), (''title'', Str ''Second title''), (''year'', Str ''2024''),
         (''doi'', Str ''https://doi.org/10.1234/abc''), (''main_keyphrase'', Str ''trees'')])
     = [[(''filename'', Str ''a.pdf''), (''title'', Str ''First title''), (''year'', Str ''No year''),
         (''embedding'', PyList [Num 6, Num 1]), (''doi'', Str ''NO PROVIDED DOI'')]]"
proof -
  let ?d1 = "[(''filename'', Str ''a.pdf''), (''title'', Str ''First title''),
              (''doi'', Str ''NO PROVIDED DOI''), (''main_keyphrase'', Str ''graphs'')]"
  let ?d2 = "[(''filename'', Str ''a.pdf''), (''title'', Str ''Second title''), (''year'', Str ''2024''),
              (''doi'', Str ''https://doi.org/10.1234/abc''), (''main_keyphrase'', Str ''trees'')]"
  let ?node = "[(''filename'', Str ''a.pdf''), (''title'', Str ''First title''), (''year'', Str ''No year''),
                (''embedding'', PyList [Num 6, Num 1]), (''doi'', Str ''NO PROVIDED DOI'')]"
  have u: "\<forall>name. length (filter (\<lambda>n. map_of n ''filename'' = Some name) (paper_nodes empty_graph)) \<le> 1"
    by (simp add: empty_graph_def)
  have first: "paper_nodes (add_paper sample_env empty_graph ?d1) = [?node]"
    using add_paper_create_if_absent [of empty_graph ?d1 sample_env]
    by (simp add: empty_graph_def dict_get_def sample_env_def cypher_set_def)
  have second: "paper_nodes (add_paper sample_env (add_paper sample_env empty_graph ?d1) ?d2) = [?node]"
    using add_paper_create_if_absent [of "add_paper sample_env empty_graph ?d1" ?d2 sample_env]
    by (simp add: first dict_get_def)
  show ?thesis using u first second by simp
qed

subsection \<open>What papers_load returns\<close>

lemma load_fields:
  assumes "load e Paper file_path = Inr (loaded, paper)"
  shows "loaded \<and> paper_topics paper = [] \<and> paper_main_keyphrase paper = ''No keyphrase''
         \<and> paper_path paper = file_path \<and> paper_filename paper = basename file_path"
  using assms by (auto simp: load_def Paper_def split: option.splits)

lemma papers_load_files_papers:
  assumes "papers_load_files e ow path files items w = (Inr ps, w')"
    and "p \<in> set ps"
  shows "p \<in> set items
         \<or> (paper_doi p = extract_doi (paper_text p) (paper_title p)
            \<and> paper_topics p = map fst (extract_keywords e (paper_text p))
            \<and> paper_main_keyphrase p =
                (case extract_keywords e (paper_text p) of
                   [] \<Rightarrow> ''No keyphrase'' | first_topic # _ \<Rightarrow> fst first_topic))"
  using assms
proof (induction files arbitrary: items w)
  case Nil
  then show ?case by simp
next
  case (Cons file_name rest)
  show ?case
  proof (cases "endswith (lower file_name) ''.pdf''")
    case False
    then show ?thesis using Cons.IH Cons.prems by simp
  next
    case True
    show ?thesis
    proof (cases "load e Paper (path_join path file_name)")
      case (Inl err)
      then show ?thesis using Cons.prems True by (simp add: Let_def)
    next
      case (Inr r)
      obtain loaded paper where r: "r = (loaded, paper)" by (cases r)
      have f: "loaded" "paper_topics paper = []" "paper_main_keyphrase paper = ''No keyphrase''"
        using load_fields Inr r by blast+
      show ?thesis
      proof (cases "extract_keywords e (paper_text paper)")
        case Nil
        with Cons.prems True Inr r f have
          "p \<in> set (items @ [paper\<lparr>paper_doi := extract_doi (paper_text paper) (paper_title paper)\<rparr>])
           \<or> (paper_doi p = extract_doi (paper_text p) (paper_title p)
            \<and> paper_topics p = map fst (extract_keywords e (paper_text p))
            \<and> paper_main_keyphrase p =
                (case extract_keywords e (paper_text p) of
                   [] \<Rightarrow> ''No keyphrase'' | first_topic # _ \<Rightarrow> fst first_topic))"
          by (intro Cons.IH) (simp_all add: Let_def)
        then show ?thesis using Nil f by auto
      next
        case (Cons first_topic more)
        with Cons.prems True Inr r f have
          "p \<in> set (items @ [paper\<lparr>paper_doi := extract_doi (paper_text paper) (paper_title paper),
                                     paper_topics := map fst (first_topic # more),
                                     paper_main_keyphrase := fst first_topic\<rparr>])
           \<or> (paper_doi p = extract_doi (paper_text p) (paper_title p)
            \<and> paper_topics p = map fst (extract_keywords e (paper_text p))
            \<and> paper_main_keyphrase p =
                (case extract_keywords e (paper_text p) of
                   [] \<Rightarrow> ''No keyphrase'' | first_topic # _ \<Rightarrow> fst first_topic))"
          by (intro Cons.IH) (simp_all add: Let_def)
        then show ?thesis using Cons f by auto
      qed
    qed
  qed
qed

lemma papers_load_papers:
  assumes "papers_load e ow path w = (Inr ps, w')" and "p \<in> set ps"
  shows "paper_doi p = extract_doi (paper_text p) (paper_title p)
         \<and> paper_topics p = map fst (extract_keywords e (paper_text p))
         \<and> paper_main_keyphrase p =
             (case extract_keywords e (paper_text p) of
                [] \<Rightarrow> ''No keyphrase'' | first_topic # _ \<Rightarrow> fst first_topic)"
proof (cases "os_path_exists e (os_path_expanduser e path)")
  case True
  then show ?thesis
    using assms papers_load_files_papers [of e ow "os_path_expanduser e path"
        "os_listdir e (os_path_expanduser e path)" "[]" w ps w' p]
    by (simp add: papers_load_def Let_def)
next
  case False
  then show ?thesis using assms by (simp add: papers_load_def Let_def)
qed

lemma extract_doi_Str: "\<exists>s. extract_doi txt title = Str s"
  by (simp add: extract_doi_def split: option.splits prod.splits)



lemma sample_load:
  "papers_load sample_env (\<lambda>args w. w) ''/papers'' () = (Inr [sample_paper], ())"
  by code_simp

lemma sample_load_no_keywords:
  "papers_load sample_env_no_keywords (\<lambda>args w. w) ''/papers'' () = (Inr [sample_paper_no_keywords], ())"
  by code_simp

subsection \<open>What the loading thread writes\<close>

lemma paper_data_get:
  "dict_get (paper_data p) ''filename'' d = Str (paper_filename p)"
  "dict_get (paper_data p) ''title'' d = Str (paper_title p)"
  "dict_get (paper_data p) ''year'' d = d"
  "dict_get (paper_data p) ''doi'' d = paper_doi p"
  "dict_get (paper_data p) ''main_keyphrase'' d = Str (paper_main_keyphrase p)"
  "dict_get (paper_data p) ''topics'' d = PyList (map Str (paper_topics p))"
  "dict_get (paper_data p) ''authors'' d =
     PyList (if paper_author p \<noteq> [] then [Str (paper_author p)] else [])"
  by (simp_all add: dict_get_def paper_data_def)

lemma new_paper_node:
  assumes "\<forall>n \<in> set (paper_nodes g). map_of n ''filename'' \<noteq> Some (Str (paper_filename p))"
    and "paper_doi p \<noteq> PyNone"
  shows "paper_nodes (add_paper e g (paper_data p)) =
           paper_nodes g @
             [[(''filename'', Str (paper_filename p)), (''title'', Str (paper_title p)),
               (''year'', Str ''No year''),
               (''embedding'', PyList (map Num (encode e (Str (paper_main_keyphrase p))))),
               (''doi'', paper_doi p)]]"
  using assms
  by (auto simp: add_paper_paper_nodes paper_data_get merge_node_def cypher_set_def)

lemma output_print_args_session [simp]: "session (output_print_args args s) = session s"
  by (cases "(args, s)" rule: output_print_args.cases)
     (simp_all add: output_print_def output_print_end_def)





lemma merge_edges_set: "set (merge_edges es srcs dsts) = set es \<union> set srcs \<times> set dsts"
  by (auto simp: merge_edges_def)

lemma merge_node_extends: "\<exists>ext. merge_node ns k v oc = ns @ ext"
  by (simp add: merge_node_def)



lemma merge_author_keeps:
  assumes "author_wrote g name p"
  shows "author_wrote (merge_author g filename other) name p"
proof -
  obtain ext where ext: "merge_node (author_nodes g) ''name'' other [] = author_nodes g @ ext"
    using merge_node_extends by blast
  from assms obtain a where "a < length (author_nodes g)"
      "map_of (author_nodes g ! a) ''name'' = Some name" "(a, p) \<in> set (wrote g)"
    by (auto simp: author_wrote_def)
  then show ?thesis
    by (auto simp: author_wrote_def merge_author_def Let_def merge_edges_set ext nth_append
             intro!: exI [of _ a])
qed







subsection \<open>The persisted embedding\<close>

text \<open>
  Claim C9. The embedding persisted for a paper is the encoding of its primary key phrase
  only: for a paper returned by \<^verbatim>\<open>papers_load\<close> and a store with no Paper node of its
  file name, \<^verbatim>\<open>add_paper\<close> on the dict of the paper adds one Paper node, whose embedding
  is the encoder's vector for the first extracted key phrase, and for the literal string
  \<^verbatim>\<open>No keyphrase\<close> when the extractor returns no key phrase. The text of the paper is
  read by the extractor only.
\<close>

theorem embedding_encodes_main_keyphrase:
  assumes "papers_load e output_writer path w = (Inr papers, w')"
    and "p \<in> set papers"
    and "\<forall>n \<in> set (paper_nodes g). map_of n ''filename'' \<noteq> Some (Str (paper_filename p))"
  shows "\<exists>node. paper_nodes (add_paper e g (paper_data p)) = paper_nodes g @ [node]
           \<and> map_of node ''embedding'' =
               Some (PyList (map Num (encode e (Str
                 (case extract_keywords e (paper_text p) of
                    [] \<Rightarrow> ''No keyphrase'' | first_topic # _ \<Rightarrow> fst first_topic)))))"
proof -
  have k: "paper_main_keyphrase p =
             (case extract_keywords e (paper_text p) of
                [] \<Rightarrow> ''No keyphrase'' | first_topic # _ \<Rightarrow> fst first_topic)"
    and d: "paper_doi p = extract_doi (paper_text p) (paper_title p)"
    using papers_load_papers [OF assms(1,2)] by simp_all
  have "paper_doi p \<noteq> PyNone" using d extract_doi_Str [of "paper_text p" "paper_title p"] by auto
  from new_paper_node [OF assms(3) this, of e] show ?thesis
    by (simp add: k)
qed

text \<open>
  Claim C9 at the sample directory, with an extractor that finds \<^verbatim>\<open>graph ranking\<close> first
  and with one that finds nothing.
\<close>

theorem embedding_encodes_main_keyphrase_witness:
  "papers_load sample_env (\<lambda>args w. w) ''/papers'' () = (Inr [sample_paper], ())
   \<and> papers_load sample_env_no_keywords (\<lambda>args w. w) ''/papers'' () = (Inr [sample_paper_no_keywords], ())
   \<and> paper_nodes empty_graph = []
   \<and> map (\<lambda>node. map_of node ''embedding'')
        (paper_nodes (add_paper sample_env empty_graph (paper_data sample_paper)))
       = [Some (PyList (map Num (encode sample_env (Str ''graph ranking''))))]
   \<and> map (\<lambda>node. map_of node ''embedding'')
        (paper_nodes (add_paper sample_env_no_keywords empty_graph (paper_data sample_paper_no_keywords)))
       = [Some (PyList (map Num (encode sample_env_no_keywords (Str ''No keyphrase''))))]"
proof -
  have e: "paper_nodes empty_graph = []" by (simp add: empty_graph_def)
  have a: "\<forall>n \<in> set (paper_nodes empty_graph).
             map_of n ''filename'' \<noteq> Some (Str (paper_filename sample_paper))"
    and b: "\<forall>n \<in> set (paper_nodes empty_graph).
             map_of n ''filename'' \<noteq> Some (Str (paper_filename sample_paper_no_keywords))"
    by (simp_all add: empty_graph_def)
  have k1: "extract_keywords sample_env (paper_text sample_paper)
              = [(''graph ranking'', 0.7), (''identifier'', 0.4)]"
    by (simp add: sample_env_def)
  have k2: "extract_keywords sample_env_no_keywords (paper_text sample_paper_no_keywords) = []"
    by (simp add: sample_env_no_keywords_def sample_env_def)
  have "sample_paper \<in> set [sample_paper]" by simp
  from embedding_encodes_main_keyphrase [OF sample_load this a]
  have one: "map (\<lambda>node. map_of node ''embedding'')
        (paper_nodes (add_paper sample_env empty_graph (paper_data sample_paper)))
       = [Some (PyList (map Num (encode sample_env (Str ''graph ranking''))))]"
    by (auto simp: e k1)
  have "sample_paper_no_keywords \<in> set [sample_paper_no_keywords]" by simp
  from embedding_encodes_main_keyphrase [OF sample_load_no_keywords this b]
  have two: "map (\<lambda>node. map_of node ''embedding'')
        (paper_nodes (add_paper sample_env_no_keywords empty_graph (paper_data sample_paper_no_keywords)))
       = [Some (PyList (map Num (encode sample_env_no_keywords (Str ''No keyphrase''))))]"
    by (auto simp: e k2)
  show ?thesis using sample_load sample_load_no_keywords e one two by simp
qed

subsection \<open>What is persisted for a paper\<close>






subsection \<open>Searches without results\<close>

text \<open>
  List papers, the three searches by title, author and topic, and simsearch write one
  message when the result is empty and return: no table, no visualisation.
\<close>

lemma list_papers_no_results:
  assumes "tokens = [''lp''] \<or> tokens = [''list'', ''papers'']"
    and "run_query e (session self) Query_list_papers = []"
  shows "command_list_papers e self tokens = output_write self ''No papers found.''"
  using assms by (auto simp: command_list_papers_def Let_def)

lemma search_by_title_no_results:
  assumes "run_query e (session self) (Query_search_by_title v) = []"
  shows "command_search_by_title e self v visualise =
           output_write self (''No papers found with title containing '' @ quoted v @ ''.'')"
  using assms by (simp add: command_search_by_title_def)

lemma search_by_author_no_results:
  assumes "run_query e (session self) (Query_search_by_author v) = []"
  shows "command_search_by_author e self v visualise =
           output_write self (''No results found for author containing '' @ quoted v @ ''.'')"
  using assms by (simp add: command_search_by_author_def)

lemma search_by_topic_no_results:
  assumes "run_query e (session self) (Query_search_by_topic v) = []"
  shows "command_search_by_topic e self v visualise =
           output_write self (''No papers found with topic containing '' @ quoted v @ ''.'')"
  using assms by (simp add: command_search_by_topic_def)

lemma search_by_similarity_no_results:
  assumes "2 \<le> length tokens"
    and "find_papers_by_similarity e (run_query e (session self)) (similarity_query_text tokens) 15 0.2 = []"
  shows "command_search_by_similarity e self tokens =
           output_write self ''No papers found with embedding. Please ensure you stored them!''"
  using assms by (simp add: command_search_by_similarity_def Let_def)

text \<open>
  \<^verbatim>\<open>command_search_by_vsemantic\<close> has no \<^verbatim>\<open>return\<close> after its message: it goes on to
  the heading, the table of no rows and the visualisation.
\<close>

lemma search_by_vsemantic_no_results:
  assumes "2 \<le> length tokens"
    and "find_papers_by_similarity e (run_query e (session self)) (similarity_query_text tokens) 15 0.2 = []"
  shows "command_search_by_vsemantic e self tokens =
           visualise_output
             (output_write
               (output_write
                 (output_write self ''No papers found with embedding. Please ensure you stored them!'')
                 (''=== Semantic Search Results for '' @ quoted (similarity_query_text tokens) @ '' ===''))
               (tabulate e [] [''Title'', ''Author'', ''DOI'', ''Similarity''] ''simple_grid'' (Width 50)))
             (Dicts []) (similarity_query_text tokens) True"
  using assms by (simp add: command_search_by_vsemantic_def Let_def)

lemma sample_no_results:
  "find_papers_by_similarity sample_env (run_query sample_env g) q n t = []"
  by (simp add: find_papers_by_similarity_def sample_env_def slice_to_def)

lemma vss_tokens: "split_ws 2 (strip ''vss graphs'') = [''vss'', ''graphs'']"
  by code_simp

lemma ss_tokens: "split_ws 2 (strip ''ss graphs'') = [''ss'', ''graphs'']"
  by code_simp

lemma vss_lower: "lower ''vss'' = ''vss''"
  by code_simp

lemma ss_lower: "lower ''ss'' = ''ss''"
  by code_simp

text \<open>
  Claim C4 at the input line \<^verbatim>\<open>vss graphs\<close> on a database without papers: the search
  has no result, and the output area holds the message, then the heading and the table,
  and \<^verbatim>\<open>visualise_output\<close> is called with no papers. The line \<^verbatim>\<open>ss graphs\<close> on the same
  database writes the message only.
\<close>

theorem vsimsearch_without_results_shows_table:
  "find_papers_by_similarity sample_env (run_query sample_env empty_graph) ''graphs'' 15 0.2 = []
   \<and> output_area_text (command_handler sample_env
        ((CommandLineInterface [] empty_graph)\<lparr>input_field_text := ''vss graphs''\<rparr>))
       = ''No papers found with embedding. Please ensure you stored them!'' @ nl
         @ ''=== Semantic Search Results for '' @ quoted ''graphs'' @ '' ==='' @ nl
         @ ''<table>'' @ nl
   \<and> visualisations (command_handler sample_env
        ((CommandLineInterface [] empty_graph)\<lparr>input_field_text := ''vss graphs''\<rparr>))
       = [(Dicts [], ''graphs'', True)]
   \<and> output_area_text (command_handler sample_env
        ((CommandLineInterface [] empty_graph)\<lparr>input_field_text := ''ss graphs''\<rparr>))
       = ''No papers found with embedding. Please ensure you stored them!'' @ nl
   \<and> visualisations (command_handler sample_env
        ((CommandLineInterface [] empty_graph)\<lparr>input_field_text := ''ss graphs''\<rparr>))
       = []"
proof -
  let ?v = "(CommandLineInterface [] empty_graph)\<lparr>input_field_text := ''vss graphs''\<rparr>"
  let ?s = "(CommandLineInterface [] empty_graph)\<lparr>input_field_text := ''ss graphs''\<rparr>"
  have hv: "command_handler sample_env ?v
              = command_search_by_vsemantic sample_env (output_clear ?v) [''vss'', ''graphs'']"
    by (simp add: command_handler_def vss_tokens vss_lower commands_def)
  have hs: "command_handler sample_env ?s
              = command_search_by_similarity sample_env (output_clear ?s) [''ss'', ''graphs'']"
    by (simp add: command_handler_def ss_tokens ss_lower commands_def)
  have tab: "tabulate sample_env [] [''Title'', ''Author'', ''DOI'', ''Similarity''] ''simple_grid'' (Width 50)
               = ''<table>''"
    by (simp add: sample_env_def)
  have v: "command_handler sample_env ?v =
             visualise_output
               (output_write
                 (output_write
                   (output_write (output_clear ?v)
                      ''No papers found with embedding. Please ensure you stored them!'')
                   (''=== Semantic Search Results for '' @ quoted ''graphs'' @ '' ===''))
                 ''<table>'')
               (Dicts []) ''graphs'' True"
    unfolding hv
    by (subst search_by_vsemantic_no_results)
       (simp_all add: sample_no_results similarity_query_text_def tab)
  have s: "command_handler sample_env ?s =
             output_write (output_clear ?s)
               ''No papers found with embedding. Please ensure you stored them!''"
    unfolding hs
    by (subst search_by_similarity_no_results) (simp_all add: sample_no_results)
  show ?thesis
    unfolding v s
    by (simp add: sample_no_results visualise_output_def output_write_def output_clear_def
        CommandLineInterface_def)
qed

subsection \<open>The DOI taken from the title\<close>

text \<open>
  A match in the text decides the DOI, whatever the title is; without a match in the text
  or in the title the DOI is the fixed string.
\<close>

lemma doi_from_text:
  assumes "doi_search txt = Some (g0, g1)"
  shows "extract_doi txt title = Str (''https://doi.org/'' @ rstrip_chars doi_strip_chars g1)"
  using assms by (simp add: extract_doi_def)

lemma doi_not_provided:
  assumes "doi_search txt = None" and "doi_search title = None"
  shows "extract_doi txt title = Str ''NO PROVIDED DOI''"
  using assms by (simp add: extract_doi_def)

text \<open>
  Claim C10 at a paper whose text has no DOI and whose title is \<^verbatim>\<open>DOI:10.1234/abc\<close>:
  the pattern matches the title with group 1 \<^verbatim>\<open>10.1234/abc\<close>, and \<^verbatim>\<open>papers_load\<close> sets
  the DOI to \<^verbatim>\<open>https://doi.org/DOI:10.1234/abc\<close>. The title branch takes group 0, which
  includes the prefix, and removes the lower-case \<^verbatim>\<open>doi:\<close> only, while the pattern is
  matched ignoring case.
\<close>

theorem title_doi_keeps_uppercase_prefix:
  "doi_search ''Graph search. No identifier here.'' = None
   \<and> doi_search ''DOI:10.1234/abc'' = Some (''DOI:10.1234/abc'', ''10.1234/abc'')
   \<and> papers_load sample_env (\<lambda>args w. w) ''/papers'' () = (Inr [sample_paper], ())
   \<and> paper_title sample_paper = ''DOI:10.1234/abc''
   \<and> paper_text sample_paper = ''Graph search. No identifier here.''
   \<and> paper_doi sample_paper = Str ''https://doi.org/DOI:10.1234/abc''"
proof -
  have a: "doi_search ''Graph search. No identifier here.'' = None" by code_simp
  have b: "doi_search ''DOI:10.1234/abc'' = Some (''DOI:10.1234/abc'', ''10.1234/abc'')" by code_simp
  show ?thesis using a b sample_load by (simp add: sample_paper_def)
qed

text \<open>
  With the prefix in lower case the title branch gives the DOI link of group 1.
\<close>

lemma lowercase_prefix_is_removed:
  "extract_doi ''Graph search. No identifier here.'' ''doi:10.1234/abc''
     = Str ''https://doi.org/10.1234/abc''"
  by code_simp

end
